theory Spec2Isabelle
  imports Main "HOL-Library.Word" "HOL-Library.Sublist"
begin

section \<open>JavaScript strings\<close>

text \<open>
  A JavaScript string is a sequence of 16-bit code units. ASCII text is written with
  \<open>js\<close>; the glyphs of the messages are given by their UTF-16 code units.
\<close>

type_synonym code_unit = "16 word"
type_synonym jsstring = "code_unit list"

definition js :: "string \<Rightarrow> jsstring" where
  "js s = map of_char s"

definition dquote :: code_unit where
  "dquote = 0x22"

definition backslash :: code_unit where
  "backslash = 0x5C"

definition cross_mark :: jsstring where
  "cross_mark = [0x274C]"

definition warning_sign :: jsstring where
  "warning_sign = [0x26A0, 0xFE0F]"

definition check_mark :: jsstring where
  "check_mark = [0x2705]"

definition robot_face :: jsstring where
  "robot_face = [0xD83E, 0xDD16]"

definition stop_sign :: jsstring where
  "stop_sign = [0xD83D, 0xDED1]"

text \<open>
  \<open>String.prototype.trim\<close> removes the WhiteSpace and LineTerminator code points of
  ECMAScript from both ends. All of them lie in the Basic Multilingual Plane, so the test
  is one on code units.
\<close>

definition isWhiteSpace :: "code_unit \<Rightarrow> bool" where
  "isWhiteSpace c =
     (c = 0x09 \<or> c = 0x0A \<or> c = 0x0B \<or> c = 0x0C \<or> c = 0x0D \<or> c = 0x20 \<or> c = 0xA0
      \<or> c = 0x1680 \<or> (0x2000 \<le> c \<and> c \<le> 0x200A) \<or> c = 0x2028 \<or> c = 0x2029
      \<or> c = 0x202F \<or> c = 0x205F \<or> c = 0x3000 \<or> c = 0xFEFF)"

definition trim :: "jsstring \<Rightarrow> jsstring" where
  "trim s = rev (dropWhile isWhiteSpace (rev (dropWhile isWhiteSpace s)))"

text \<open>
  \<open>String.prototype.toLowerCase\<close>. The Basic Latin letters \<open>A\<close> to \<open>Z\<close> are mapped to
  \<open>a\<close> to \<open>z\<close>; every other code unit is left as it is. The program uses the result
  only in a comparison with the one-letter string \<open>y\<close>, and Unicode lower-casing maps no
  code point other than \<open>Y\<close> to a string holding \<open>y\<close> and none to the empty string, so the
  comparison has the value it has in JavaScript.
\<close>

definition lower_unit :: "code_unit \<Rightarrow> code_unit" where
  "lower_unit c = (if 0x41 \<le> c \<and> c \<le> 0x5A then c + 0x20 else c)"

definition toLowerCase :: "jsstring \<Rightarrow> jsstring" where
  "toLowerCase s = map lower_unit s"

text \<open>
  \<open>message.replace(/"/g, '\\"')\<close>: every double quote is replaced by a backslash and a
  double quote, scanning from the left; every other code unit is copied.
\<close>

fun replace_dquotes :: "jsstring \<Rightarrow> jsstring" where
  "replace_dquotes [] = []"
| "replace_dquotes (c # cs) =
     (if c = dquote then backslash # dquote # replace_dquotes cs
      else c # replace_dquotes cs)"

text \<open>
  The decimal text of a non-negative integer, as a template literal renders a token
  count (a sum of two array lengths, far below the range where JavaScript switches to
  exponent notation).
\<close>

fun decimal :: "nat \<Rightarrow> jsstring" where
  "decimal n =
     (if n < 10 then [of_nat (48 + n)]
      else decimal (n div 10) @ [of_nat (48 + n mod 10)])"

declare decimal.simps [simp del]

section \<open>JavaScript values\<close>

text \<open>
  The values that travel in HTTP bodies: what \<open>JSON.parse\<close> yields, and \<open>undefined\<close>.
  A number is carried as the text \<open>ToString\<close> gives for it, which is all the program
  observes of a number of a payload. An object is the list of its own properties.
\<close>

datatype jsval =
    JUndefined
  | JNull
  | JBool bool
  | JNum jsstring
  | JStr jsstring
  | JArr "jsval list"
  | JObj "(jsstring \<times> jsval) list"

text \<open>The \<open>TypeError\<close>s the engine raises; the wording of their messages is the engine's.\<close>

datatype type_failure =
    ReadOfNullish jsstring
  | NotAFunction jsstring
  | NoPrimitive

text \<open>
  \<open>v.k\<close> and \<open>v[0]\<close>, for the property names the program reads: \<open>choices\<close>, \<open>0\<close>,
  \<open>message\<close>, \<open>content\<close>, \<open>error\<close> and \<open>code\<close>. Reading a property of \<open>undefined\<close> or
  \<open>null\<close> throws. Strings and arrays have the index \<open>0\<close> and none of the other names;
  numbers and booleans have none of them.
\<close>

fun get_prop :: "jsval \<Rightarrow> jsstring \<Rightarrow> type_failure + jsval" where
  "get_prop JUndefined k = Inl (ReadOfNullish k)"
| "get_prop JNull k = Inl (ReadOfNullish k)"
| "get_prop (JObj kvs) k = Inr (case map_of kvs k of None \<Rightarrow> JUndefined | Some v \<Rightarrow> v)"
| "get_prop (JArr xs) k =
     Inr (if k = js ''0'' then (case xs of [] \<Rightarrow> JUndefined | x # _ \<Rightarrow> x) else JUndefined)"
| "get_prop (JStr s) k =
     Inr (if k = js ''0'' then (case s of [] \<Rightarrow> JUndefined | c # _ \<Rightarrow> JStr [c])
          else JUndefined)"
| "get_prop (JBool b) k = Inr JUndefined"
| "get_prop (JNum t) k = Inr JUndefined"

text \<open>Optional chaining \<open>v?.k\<close>: \<open>undefined\<close> when \<open>v\<close> is \<open>undefined\<close> or \<open>null\<close>.\<close>

definition opt_prop :: "jsval \<Rightarrow> jsstring \<Rightarrow> jsval" where
  "opt_prop v k = (case get_prop v k of Inl _ \<Rightarrow> JUndefined | Inr x \<Rightarrow> x)"

text \<open>
  The method call \<open>v.trim()\<close>. Only a string has a callable \<open>trim\<close>; no value of a parsed
  body is a function.
\<close>

fun call_trim :: "jsval \<Rightarrow> type_failure + jsstring" where
  "call_trim JUndefined = Inl (ReadOfNullish (js ''trim''))"
| "call_trim JNull = Inl (ReadOfNullish (js ''trim''))"
| "call_trim (JStr s) = Inr (trim s)"
| "call_trim (JBool b) = Inl (NotAFunction (js ''trim''))"
| "call_trim (JNum t) = Inl (NotAFunction (js ''trim''))"
| "call_trim (JArr xs) = Inl (NotAFunction (js ''trim''))"
| "call_trim (JObj kvs) = Inl (NotAFunction (js ''trim''))"

text \<open>Truthiness, as \<open>||\<close> tests it.\<close>

fun truthy :: "jsval \<Rightarrow> bool" where
  "truthy JUndefined = False"
| "truthy JNull = False"
| "truthy (JBool b) = b"
| "truthy (JNum t) = (t \<noteq> js ''0'' \<and> t \<noteq> js ''NaN'')"
| "truthy (JStr s) = (s \<noteq> [])"
| "truthy (JArr xs) = True"
| "truthy (JObj kvs) = True"

text \<open>
  \<open>ToString\<close>, as a template literal applies it. An array joins its elements with
  commas, \<open>undefined\<close> and \<open>null\<close> elements giving the empty string. An object without an
  own \<open>toString\<close> property gives \<open>[object Object]\<close>; one with such a property (never
  callable in a parsed body) has no primitive value, and the conversion throws.
\<close>

fun toString :: "jsval \<Rightarrow> type_failure + jsstring"
  and join :: "jsval list \<Rightarrow> type_failure + jsstring" where
  "toString JUndefined = Inr (js ''undefined'')"
| "toString JNull = Inr (js ''null'')"
| "toString (JBool b) = Inr (if b then js ''true'' else js ''false'')"
| "toString (JNum t) = Inr t"
| "toString (JStr s) = Inr s"
| "toString (JArr xs) = join xs"
| "toString (JObj kvs) =
     (if map_of kvs (js ''toString'') = None then Inr (js ''[object Object]'')
      else Inl NoPrimitive)"
| "join [] = Inr []"
| "join (x # xs) =
     (case (if x = JUndefined \<or> x = JNull then Inr [] else toString x) of
        Inl f \<Rightarrow> Inl f
      | Inr s \<Rightarrow>
          (if xs = [] then Inr s
           else (case join xs of Inl f \<Rightarrow> Inl f | Inr r \<Rightarrow> Inr (s @ js '','' @ r))))"

section \<open>Thrown values, effects and the outside world\<close>

record response =
  status :: nat
  data :: jsval

text \<open>
  What a \<open>catch\<close> can receive: an \<open>AxiosError\<close> (with \<open>response\<close> when the server
  answered), any other instance of \<open>Error\<close>, or a value that is no \<open>Error\<close>.
\<close>

datatype thrown =
    JsError jsstring
  | AxiosError jsstring "response option"
  | NonError

text \<open>\<open>error instanceof Error ? error.message : fallback\<close>\<close>

fun message_or :: "jsstring \<Rightarrow> thrown \<Rightarrow> jsstring" where
  "message_or fallback (JsError m) = m"
| "message_or fallback (AxiosError m r) = m"
| "message_or fallback NonError = fallback"

text \<open>The calls that leave the program, in the order they are made.\<close>

datatype event =
    ExecSync jsstring
  | HttpPost jsstring jsval "(jsstring \<times> jsstring) list"
  | Question jsstring
  | ConsoleLog jsval
  | ConsoleError jsstring
  | Uncaught thrown

text \<open>
  The collaborators are parameters: the environment after \<open>dotenv.config()\<close>, the shell
  (\<open>execSync\<close> returns the standard output or throws), the tokenizer, the HTTP client
  (\<open>axios.post\<close> returns \<open>response.data\<close> or throws), the line the user types at the
  question, and the engine's wording of a \<open>TypeError\<close>.
\<close>

record world =
  env_OPENAI_API_KEY :: "jsstring option"
  execSync :: "jsstring \<Rightarrow> thrown + jsstring"
  encode :: "jsstring \<Rightarrow> nat list"
  axios_post :: "jsstring \<Rightarrow> jsval \<Rightarrow> (jsstring \<times> jsstring) list \<Rightarrow> thrown + jsval"
  question :: "jsstring \<Rightarrow> jsstring"
  engine_message :: "type_failure \<Rightarrow> jsstring"

record outcome =
  trace :: "event list"
  exit_code :: nat

section \<open>The program\<close>

record GitDiff =
  content :: jsstring
  isEmpty :: bool

record CommitMessage =
  content :: jsstring

text \<open>
  \<open>temperature\<close> is a number that the program only passes on; it is carried as its
  text. \<open>maxContextLength\<close> is compared with token counts, which are natural numbers.
\<close>

record OpenAIConfig =
  apiKey :: jsstring
  model :: jsstring
  temperature :: jsstring
  maxContextLength :: nat

record generator =
  openaiConfig :: OpenAIConfig
  promptTemplate :: jsstring

definition prompt_template_text :: jsstring where
  "prompt_template_text =
     js (''\<newline>'' @
        ''      You are a developer writing a conventional commit message for the following staged Git diff.\<newline>'' @
        ''      Pick **one** of these commit types based on the changes:\<newline>'' @
        ''\<newline>'' @
        ''      - feat: (new feature for the user)\<newline>'' @
        ''      - fix: (bug fix for the user)\<newline>'' @
        ''      - docs: (documentation only)\<newline>'' @
        ''      - style: (code formatting, no production logic change)\<newline>'' @
        ''      - refactor: (code refactor, no new feature or bug fix)\<newline>'' @
        ''      - test: (test-only changes)\<newline>'' @
        ''      - chore: (tooling or non-functional changes)\<newline>'' @
        ''\<newline>'' @
        ''      Write a **single-line** commit message in **present tense**, starting with the appropriate prefix and a colon. Do not include any explanation or bullet points.\<newline>'' @
        ''\<newline>'' @
        ''      Git diff:\<newline>'' @
        ''      '')"

definition missing_key_message :: jsstring where
  "missing_key_message =
     cross_mark @ js '' OPENAI_API_KEY is not set. Please export it in your shell config.''"

text \<open>
  The constructor. \<open>!apiKey\<close> holds for an absent variable and for the empty string.
\<close>

definition constructor :: "world \<Rightarrow> thrown + generator" where
  "constructor w =
     (case env_OPENAI_API_KEY w of
        None \<Rightarrow> Inl (JsError missing_key_message)
      | Some k \<Rightarrow>
          if k = [] then Inl (JsError missing_key_message)
          else Inr \<lparr>openaiConfig =
                      \<lparr>apiKey = k, model = js ''gpt-3.5-turbo'', temperature = js ''0.3'',
                       maxContextLength = 16385\<rparr>,
                    promptTemplate = prompt_template_text\<rparr>)"

definition git_diff_command :: jsstring where
  "git_diff_command = js ''git diff --cached''"

definition getStagedDiff :: "world \<Rightarrow> event list \<times> (thrown + GitDiff)" where
  "getStagedDiff w =
     ([ExecSync git_diff_command],
      case execSync w git_diff_command of
        Inr c \<Rightarrow> Inr \<lparr>GitDiff.content = c, isEmpty = (trim c = [])\<rparr>
      | Inl e \<Rightarrow>
          Inl (JsError (cross_mark @ js '' Failed to get git diff: ''
                        @ message_or (js ''Unknown error'') e)))"

definition too_large_headline :: jsstring where
  "too_large_headline =
     cross_mark @ js '' The staged changes are too large for the model to process.\<newline>''"

definition too_large_advice :: jsstring where
  "too_large_advice = js ''Please try committing your changes in smaller chunks.''"

definition checkContextLength :: "generator \<Rightarrow> world \<Rightarrow> jsstring \<Rightarrow> thrown + unit" where
  "checkContextLength g w diff =
     (let promptTokens = length (encode w (promptTemplate g));
          diffTokens = length (encode w diff);
          totalTokens = promptTokens + diffTokens
      in if totalTokens > maxContextLength (openaiConfig g)
         then Inl (JsError
                (too_large_headline
                 @ js ''- Total tokens: '' @ decimal totalTokens @ js ''\<newline>''
                 @ js ''- Maximum allowed: '' @ decimal (maxContextLength (openaiConfig g))
                 @ js ''\<newline>''
                 @ js ''- Diff tokens: '' @ decimal diffTokens @ js ''\<newline>\<newline>''
                 @ too_large_advice))
         else Inr ())"

definition completions_url :: jsstring where
  "completions_url = js ''https://api.openai.com/v1/chat/completions''"

definition request_body :: "generator \<Rightarrow> jsstring \<Rightarrow> jsval" where
  "request_body g prompt =
     JObj [(js ''model'', JStr (model (openaiConfig g))),
           (js ''messages'',
            JArr [JObj [(js ''role'', JStr (js ''user'')), (js ''content'', JStr prompt)]]),
           (js ''temperature'', JNum (temperature (openaiConfig g)))]"

definition request_headers :: "generator \<Rightarrow> (jsstring \<times> jsstring) list" where
  "request_headers g =
     [(js ''Content-Type'', js ''application/json''),
      (js ''Authorization'', js ''Bearer '' @ apiKey (openaiConfig g))]"

text \<open>\<open>response.data.choices[0].message.content.trim()\<close>\<close>

definition first_choice_text :: "jsval \<Rightarrow> type_failure + jsstring" where
  "first_choice_text d =
     (case get_prop d (js ''choices'') of
        Inl f \<Rightarrow> Inl f
      | Inr choices \<Rightarrow>
          (case get_prop choices (js ''0'') of
             Inl f \<Rightarrow> Inl f
           | Inr choice \<Rightarrow>
               (case get_prop choice (js ''message'') of
                  Inl f \<Rightarrow> Inl f
                | Inr msg \<Rightarrow>
                    (case get_prop msg (js ''content'') of
                       Inl f \<Rightarrow> Inl f
                     | Inr c \<Rightarrow> call_trim c))))"

text \<open>The \<open>catch\<close> block of \<open>generateCommitMessage\<close>.\<close>

fun completion_catch :: "world \<Rightarrow> thrown \<Rightarrow> event list \<times> (thrown + CommitMessage)" where
  "completion_catch w (AxiosError m r) =
     (let st = (case r of None \<Rightarrow> None | Some resp \<Rightarrow> Some (status resp));
          payload = (case r of None \<Rightarrow> JUndefined | Some resp \<Rightarrow> data resp)
      in if st = Some 400
            \<and> opt_prop (opt_prop payload (js ''error'')) (js ''code'')
                = JStr (js ''context_length_exceeded'')
         then ([], Inl (JsError (too_large_headline @ too_large_advice)))
         else ([ConsoleLog payload],
               case (if truthy payload then toString payload else Inr m) of
                 Inr s \<Rightarrow> Inl (JsError (cross_mark @ js '' Error generating commit message: '' @ s))
               | Inl f \<Rightarrow> Inl (JsError (engine_message w f))))"
| "completion_catch w (JsError m) =
     ([], Inl (JsError (cross_mark @ js '' Unexpected error: '' @ m)))"
| "completion_catch w NonError =
     ([], Inl (JsError (cross_mark @ js '' Unexpected error: '' @ js ''Unknown error'')))"

definition generateCommitMessage ::
  "generator \<Rightarrow> world \<Rightarrow> jsstring \<Rightarrow> event list \<times> (thrown + CommitMessage)" where
  "generateCommitMessage g w diff =
     (case checkContextLength g w diff of
        Inl e \<Rightarrow> ([], Inl e)
      | Inr _ \<Rightarrow>
          (let prompt = promptTemplate g @ diff;
               body = request_body g prompt;
               headers = request_headers g;
               (t, r) =
                 (case axios_post w completions_url body headers of
                    Inl e \<Rightarrow> completion_catch w e
                  | Inr d \<Rightarrow>
                      (case first_choice_text d of
                         Inr c \<Rightarrow> ([], Inr \<lparr>CommitMessage.content = c\<rparr>)
                       | Inl f \<Rightarrow> completion_catch w (JsError (engine_message w f))))
           in (HttpPost completions_url body headers # t, r)))"

definition confirmation_question :: jsstring where
  "confirmation_question =
     js ''\<newline>'' @ robot_face @ js '' Do you want to use this commit message? (y/N): ''"

definition promptUser :: "world \<Rightarrow> event list \<times> bool" where
  "promptUser w =
     ([Question confirmation_question],
      toLowerCase (question w confirmation_question) = js ''y'')"

definition commit_command :: "jsstring \<Rightarrow> jsstring" where
  "commit_command message =
     js ''git commit -m '' @ [dquote] @ replace_dquotes message @ [dquote]"

definition commitChanges :: "world \<Rightarrow> jsstring \<Rightarrow> event list \<times> (thrown + unit)" where
  "commitChanges w message =
     ([ExecSync (commit_command message)],
      case execSync w (commit_command message) of
        Inr _ \<Rightarrow> Inr ()
      | Inl e \<Rightarrow>
          Inl (JsError (cross_mark @ js '' Failed to commit: ''
                        @ message_or (js ''Unknown error'') e)))"

text \<open>
  The \<open>catch\<close> block of \<open>run\<close>: the message goes to \<open>console.error\<close> and
  \<open>process.exit(1)\<close> ends the process.
\<close>

definition run_catch :: "event list \<Rightarrow> thrown \<Rightarrow> outcome" where
  "run_catch t e =
     \<lparr>trace = t @ [ConsoleError (message_or (js ''An unexpected error occurred'') e)],
      exit_code = 1\<rparr>"

definition no_staged_notice :: jsstring where
  "no_staged_notice = warning_sign @ js '' No staged changes found. Stage some files first.''"

definition suggestion_banner :: jsstring where
  "suggestion_banner =
     js ''\<newline>'' @ check_mark @ js '' Suggested commit message:\<newline>''"

definition cancelled_notice :: jsstring where
  "cancelled_notice = stop_sign @ js '' Commit cancelled.''"

text \<open>
  \<open>run\<close>. A run that returns leaves the process to end with status 0.
\<close>

definition run :: "generator \<Rightarrow> world \<Rightarrow> outcome" where
  "run g w =
     (case getStagedDiff w of
        (t1, Inl e) \<Rightarrow> run_catch t1 e
      | (t1, Inr diff) \<Rightarrow>
          if isEmpty diff
          then \<lparr>trace = t1 @ [ConsoleLog (JStr no_staged_notice)], exit_code = 0\<rparr>
          else
            (case generateCommitMessage g w (GitDiff.content diff) of
               (t2, Inl e) \<Rightarrow> run_catch (t1 @ t2) e
             | (t2, Inr commitMessage) \<Rightarrow>
                 (let t3 = [ConsoleLog (JStr suggestion_banner),
                            ConsoleLog (JStr (CommitMessage.content commitMessage))]
                  in case promptUser w of
                       (t4, shouldCommit) \<Rightarrow>
                         if shouldCommit
                         then
                           (case commitChanges w (CommitMessage.content commitMessage) of
                              (t5, Inl e) \<Rightarrow> run_catch (t1 @ t2 @ t3 @ t4 @ t5) e
                            | (t5, Inr _) \<Rightarrow>
                                \<lparr>trace = t1 @ t2 @ t3 @ t4 @ t5, exit_code = 0\<rparr>)
                         else
                           \<lparr>trace = t1 @ t2 @ t3 @ t4 @ [ConsoleLog (JStr cancelled_notice)],
                            exit_code = 0\<rparr>)))"

text \<open>
  The top level, \<open>new GitCommitGenerator().run()\<close>. An exception of the constructor is
  caught by nothing: the runtime reports the thrown error on the error stream and ends
  the process with status 1.
\<close>

definition main :: "world \<Rightarrow> outcome" where
  "main w =
     (case constructor w of
        Inl e \<Rightarrow> \<lparr>trace = [Uncaught e], exit_code = 1\<rparr>
      | Inr g \<Rightarrow> run g w)"

section \<open>Reading a trace\<close>

fun is_network_call :: "event \<Rightarrow> bool" where
  "is_network_call (HttpPost u b h) = True"
| "is_network_call (ExecSync c) = False"
| "is_network_call (Question q) = False"
| "is_network_call (ConsoleLog v) = False"
| "is_network_call (ConsoleError m) = False"
| "is_network_call (Uncaught e) = False"

fun is_question :: "event \<Rightarrow> bool" where
  "is_question (Question q) = True"
| "is_question (ExecSync c) = False"
| "is_question (HttpPost u b h) = False"
| "is_question (ConsoleLog v) = False"
| "is_question (ConsoleError m) = False"
| "is_question (Uncaught e) = False"

text \<open>A commit invocation is a shell call whose command line starts with \<open>git commit\<close>.\<close>

fun is_commit_call :: "event \<Rightarrow> bool" where
  "is_commit_call (ExecSync c) = prefix (js ''git commit'') c"
| "is_commit_call (HttpPost u b h) = False"
| "is_commit_call (Question q) = False"
| "is_commit_call (ConsoleLog v) = False"
| "is_commit_call (ConsoleError m) = False"
| "is_commit_call (Uncaught e) = False"

section \<open>Sample worlds\<close>

text \<open>
  A body of the shape the completion endpoint answers with, and a world built from a
  credential, a staged diff, a tokenizer that gives every text the same number of tokens,
  the result of the HTTP call and the line typed at the question.
\<close>

definition sample_body :: "jsstring \<Rightarrow> jsval" where
  "sample_body c =
     JObj [(js ''choices'',
            JArr [JObj [(js ''message'',
                         JObj [(js ''role'', JStr (js ''assistant'')),
                               (js ''content'', JStr c)])]])]"

definition sample_world ::
  "jsstring option \<Rightarrow> jsstring \<Rightarrow> nat \<Rightarrow> thrown + jsval \<Rightarrow> jsstring \<Rightarrow> world" where
  "sample_world key diff n reply answer =
     \<lparr>env_OPENAI_API_KEY = key,
      execSync = (\<lambda>c. Inr diff),
      encode = (\<lambda>s. replicate n 0),
      axios_post = (\<lambda>u b h. reply),
      question = (\<lambda>q. answer),
      engine_message = (\<lambda>f. js ''TypeError'')\<rparr>"

text \<open>Two failures of the HTTP call, as the provider reports them.\<close>

definition context_length_reply :: thrown where
  "context_length_reply =
     AxiosError (js ''Request failed with status code 400'')
       (Some \<lparr>status = 400,
              data = JObj [(js ''error'',
                            JObj [(js ''message'', JStr (js ''Please reduce the length of the messages.'')),
                                  (js ''type'', JStr (js ''invalid_request_error'')),
                                  (js ''param'', JStr (js ''messages'')),
                                  (js ''code'', JStr (js ''context_length_exceeded''))])]\<rparr>)"

definition server_error_reply :: thrown where
  "server_error_reply =
     AxiosError (js ''Request failed with status code 500'')
       (Some \<lparr>status = 500,
              data = JObj [(js ''error'',
                            JObj [(js ''message'', JStr (js ''The server had an error'')),
                                  (js ''type'', JStr (js ''server_error'')),
                                  (js ''param'', JNull),
                                  (js ''code'', JNull)])]\<rparr>)"

definition sample_generator :: generator where
  "sample_generator =
     \<lparr>openaiConfig =
        \<lparr>apiKey = js ''sk-test'', model = js ''gpt-3.5-turbo'', temperature = js ''0.3'',
         maxContextLength = 16385\<rparr>,
      promptTemplate = prompt_template_text\<rparr>"

section \<open>Basic facts\<close>

lemma main_started: "constructor w = Inr g \<Longrightarrow> main w = run g w"
  by (simp add: main_def)

lemma constructor_sample:
  "constructor (sample_world (Some (js ''sk-test'')) d n r a) = Inr sample_generator"
  by (simp add: constructor_def sample_world_def sample_generator_def js_def)

lemma constructor_config:
  "constructor w = Inr g \<Longrightarrow>
     maxContextLength (openaiConfig g) = 16385 \<and> promptTemplate g = prompt_template_text"
  by (auto simp: constructor_def split: option.splits if_splits)

lemma run_empty:
  "execSync w git_diff_command = Inr d \<Longrightarrow> trim d = [] \<Longrightarrow>
   run g w = \<lparr>trace = [ExecSync git_diff_command, ConsoleLog (JStr no_staged_notice)], exit_code = 0\<rparr>"
  by (simp add: run_def getStagedDiff_def)

lemma run_diff_fails:
  "execSync w git_diff_command = Inl e \<Longrightarrow>
   run g w = \<lparr>trace = [ExecSync git_diff_command,
       ConsoleError (cross_mark @ js '' Failed to get git diff: '' @ message_or (js ''Unknown error'') e)], exit_code = 1\<rparr>"
  by (simp add: run_def getStagedDiff_def run_catch_def)

lemma run_generate_fails:
  "execSync w git_diff_command = Inr d \<Longrightarrow> trim d \<noteq> [] \<Longrightarrow>
   generateCommitMessage g w d = (t, Inl e) \<Longrightarrow>
   run g w = \<lparr>trace = ExecSync git_diff_command # t @
       [ConsoleError (message_or (js ''An unexpected error occurred'') e)], exit_code = 1\<rparr>"
  by (simp add: run_def getStagedDiff_def run_catch_def)

lemma run_declined:
  "execSync w git_diff_command = Inr d \<Longrightarrow> trim d \<noteq> [] \<Longrightarrow>
   generateCommitMessage g w d = (t, Inr \<lparr>CommitMessage.content = c\<rparr>) \<Longrightarrow>
   toLowerCase (question w confirmation_question) \<noteq> js ''y'' \<Longrightarrow>
   run g w = \<lparr>trace = ExecSync git_diff_command # t @
       [ConsoleLog (JStr suggestion_banner), ConsoleLog (JStr c), Question confirmation_question,
        ConsoleLog (JStr cancelled_notice)], exit_code = 0\<rparr>"
  by (simp add: run_def getStagedDiff_def promptUser_def)

lemma run_accepted:
  "execSync w git_diff_command = Inr d \<Longrightarrow> trim d \<noteq> [] \<Longrightarrow>
   generateCommitMessage g w d = (t, Inr \<lparr>CommitMessage.content = c\<rparr>) \<Longrightarrow>
   toLowerCase (question w confirmation_question) = js ''y'' \<Longrightarrow>
   run g w = 
     (case execSync w (commit_command c) of
        Inr out \<Rightarrow> \<lparr>trace = ExecSync git_diff_command # t @
       [ConsoleLog (JStr suggestion_banner), ConsoleLog (JStr c), Question confirmation_question,
        ExecSync (commit_command c)], exit_code = 0\<rparr>
      | Inl e \<Rightarrow> \<lparr>trace = ExecSync git_diff_command # t @
       [ConsoleLog (JStr suggestion_banner), ConsoleLog (JStr c), Question confirmation_question,
        ExecSync (commit_command c),
        ConsoleError (cross_mark @ js '' Failed to commit: '' @ message_or (js ''Unknown error'') e)], exit_code = 1\<rparr>)"
  by (simp add: run_def getStagedDiff_def promptUser_def commitChanges_def run_catch_def split: sum.splits)

lemma completion_catch_fails: "\<exists>t e. completion_catch w x = (t, Inl e)"
  by (cases x) (auto simp: Let_def split: sum.splits)

lemma completion_catch_trace:
  "completion_catch w x = (t, r) \<Longrightarrow> t = [] \<or> (\<exists>v. t = [ConsoleLog v])"
  by (cases x) (auto simp: Let_def split: sum.splits if_splits)

lemma generate_guard_fails:
  "checkContextLength g w d = Inl e \<Longrightarrow> generateCommitMessage g w d = ([], Inl e)"
  by (simp add: generateCommitMessage_def)

lemma generate_ok:
  "checkContextLength g w d = Inr () \<Longrightarrow>
   axios_post w completions_url (request_body g (promptTemplate g @ d)) (request_headers g) = Inr body \<Longrightarrow>
   first_choice_text body = Inr c \<Longrightarrow>
   generateCommitMessage g w d =
     ([HttpPost completions_url (request_body g (promptTemplate g @ d)) (request_headers g)],
      Inr \<lparr>CommitMessage.content = c\<rparr>)"
  by (simp add: generateCommitMessage_def Let_def)

lemma generate_bad_body:
  "checkContextLength g w d = Inr () \<Longrightarrow>
   axios_post w completions_url (request_body g (promptTemplate g @ d)) (request_headers g) = Inr body \<Longrightarrow>
   first_choice_text body = Inl f \<Longrightarrow>
   generateCommitMessage g w d =
     ([HttpPost completions_url (request_body g (promptTemplate g @ d)) (request_headers g)],
      Inl (JsError (cross_mark @ js '' Unexpected error: '' @ engine_message w f)))"
  by (simp add: generateCommitMessage_def Let_def)

lemma generate_throws:
  "checkContextLength g w d = Inr () \<Longrightarrow>
   axios_post w completions_url (request_body g (promptTemplate g @ d)) (request_headers g) = Inl x \<Longrightarrow>
   generateCommitMessage g w d =
     (HttpPost completions_url (request_body g (promptTemplate g @ d)) (request_headers g)
        # fst (completion_catch w x),
      snd (completion_catch w x))"
  by (simp add: generateCommitMessage_def Let_def split: prod.splits)

lemma generate_success_inversion:
  assumes "generateCommitMessage g w d = (t, Inr cm)"
  shows "checkContextLength g w d = Inr () \<and>
    t = [HttpPost completions_url (request_body g (promptTemplate g @ d)) (request_headers g)] \<and>
    (\<exists>body. axios_post w completions_url (request_body g (promptTemplate g @ d)) (request_headers g) = Inr body
       \<and> first_choice_text body = Inr (CommitMessage.content cm))"
proof (cases "checkContextLength g w d")
  case (Inl e)
  with assms show ?thesis by (simp add: generate_guard_fails)
next
  case (Inr u)
  then have guard: "checkContextLength g w d = Inr ()" by simp
  show ?thesis
  proof (cases "axios_post w completions_url (request_body g (promptTemplate g @ d)) (request_headers g)")
    case (Inl x)
    obtain t' e where "completion_catch w x = (t', Inl e)"
      using completion_catch_fails by blast
    with assms guard Inl show ?thesis by (simp add: generate_throws)
  next
    case (Inr body)
    show ?thesis
    proof (cases "first_choice_text body")
      case (Inl f)
      with assms guard Inr show ?thesis by (simp add: generate_bad_body)
    next
      case c: (Inr c)
      with assms guard Inr show ?thesis by (auto simp: generate_ok)
    qed
  qed
qed

lemma generate_trace:
  "generateCommitMessage g w d = (t, r) \<Longrightarrow>
     filter is_question t = [] \<and> filter is_commit_call t = []"
proof (cases "checkContextLength g w d")
  case (Inl e)
  assume "generateCommitMessage g w d = (t, r)"
  with Inl show ?thesis by (simp add: generate_guard_fails)
next
  case (Inr u)
  assume a: "generateCommitMessage g w d = (t, r)"
  from Inr have guard: "checkContextLength g w d = Inr ()" by simp
  show ?thesis
  proof (cases "axios_post w completions_url (request_body g (promptTemplate g @ d)) (request_headers g)")
    case (Inl x)
    obtain t' r' where c: "completion_catch w x = (t', r')" by (cases "completion_catch w x")
    then have "t' = [] \<or> (\<exists>v. t' = [ConsoleLog v])" by (rule completion_catch_trace)
    with a guard Inl c show ?thesis by (auto simp: generate_throws)
  next
    case (Inr body)
    with a guard show ?thesis
      by (cases "first_choice_text body") (auto simp: generate_ok generate_bad_body)
  qed
qed

lemma first_choice_raw:
  "first_choice_text body = Inr m \<Longrightarrow>
   \<exists>c. opt_prop (opt_prop (opt_prop (opt_prop body (js ''choices'')) (js ''0'')) (js ''message''))
          (js ''content'') = JStr c \<and> m = trim c"
  apply (simp add: first_choice_text_def opt_prop_def split: sum.splits)
  subgoal for a b c d by (cases d) auto
  done

lemma lower_unit_y: "lower_unit c = 0x79 \<longleftrightarrow> c = 0x79 \<or> c = 0x59"
proof -
  have "c + 0x20 = 0x79 \<longleftrightarrow> c = 0x59"
  proof
    assume "c + 0x20 = 0x79"
    then have "c + 0x20 - 0x20 = 0x79 - 0x20" by simp
    then show "c = 0x59" by simp
  next
    assume "c = 0x59" then show "c + 0x20 = 0x79" by simp
  qed
  then show ?thesis by (auto simp: lower_unit_def)
qed

lemma toLowerCase_y: "toLowerCase s = js ''y'' \<longleftrightarrow> s = js ''y'' \<or> s = js ''Y''"
proof (cases s)
  case Nil
  then show ?thesis by (simp add: toLowerCase_def js_def)
next
  case (Cons c cs)
  then show ?thesis using lower_unit_y [of c] by (auto simp: toLowerCase_def js_def)
qed

lemma diff_not_commit: "\<not> prefix (js ''git commit'') git_diff_command"
  by (simp add: js_def git_diff_command_def)

lemma commit_is_commit: "prefix (js ''git commit'') (commit_command m)"
  by (simp add: commit_command_def js_def)

lemma replace_dquotes_concat:
  "replace_dquotes m = concat (map (\<lambda>u. if u = dquote then [backslash, dquote] else [u]) m)"
  by (induction m) simp_all

lemma replace_dquotes_id: "dquote \<notin> set m \<Longrightarrow> replace_dquotes m = m"
  by (induction m) auto

lemma reaches_question:
  assumes q: "filter is_question (trace (main w)) \<noteq> []"
  shows "\<exists>g d t c. constructor w = Inr g \<and> execSync w git_diff_command = Inr d \<and> trim d \<noteq> []
           \<and> generateCommitMessage g w d = (t, Inr \<lparr>CommitMessage.content = c\<rparr>)"
proof (cases "constructor w")
  case (Inl e)
  with q show ?thesis by (simp add: main_def)
next
  case (Inr g)
  then have m: "main w = run g w" by (rule main_started)
  show ?thesis
  proof (cases "execSync w git_diff_command")
    case (Inl e)
    with q m show ?thesis by (simp add: run_diff_fails)
  next
    case d: (Inr d)
    show ?thesis
    proof (cases "trim d = []")
      case True
      with q m d show ?thesis by (simp add: run_empty)
    next
      case False
      obtain t r where gen: "generateCommitMessage g w d = (t, r)"
        by (cases "generateCommitMessage g w d")
      then have t: "filter is_question t = []" by (simp add: generate_trace)
      show ?thesis
      proof (cases r)
        case (Inl e)
        with q m d False gen t show ?thesis by (simp add: run_generate_fails)
      next
        case (Inr cm)
        obtain c where "cm = \<lparr>CommitMessage.content = c\<rparr>" by (cases cm) simp
        with Inr gen \<open>constructor w = Inr g\<close> d False show ?thesis by blast
      qed
    qed
  qed
qed

lemma question_in_trace:
  "Question q \<in> set tr \<Longrightarrow> filter is_question tr \<noteq> []"
  by (induction tr) auto

lemma guard_message:
  assumes "length (encode w (promptTemplate g)) + length (encode w d)
             > maxContextLength (openaiConfig g)"
  shows "checkContextLength g w d =
     Inl (JsError
       (too_large_headline
        @ js ''- Total tokens: ''
        @ decimal (length (encode w (promptTemplate g)) + length (encode w d))
        @ js ''\<newline>''
        @ js ''- Maximum allowed: '' @ decimal (maxContextLength (openaiConfig g))
        @ js ''\<newline>''
        @ js ''- Diff tokens: '' @ decimal (length (encode w d)) @ js ''\<newline>\<newline>''
        @ too_large_advice))"
  using assms by (simp add: checkContextLength_def Let_def)

lemma guard_passes:
  "length (encode w (promptTemplate g)) + length (encode w d)
     \<le> maxContextLength (openaiConfig g) \<Longrightarrow> checkContextLength g w d = Inr ()"
  by (simp add: checkContextLength_def Let_def)

lemma guard_message_shape:
  assumes "checkContextLength g w d = Inl (JsError lm)"
  shows "prefix too_large_headline lm \<and> suffix too_large_advice lm
         \<and> lm \<noteq> too_large_headline @ too_large_advice"
proof -
  let ?mid = "js ''- Total tokens: ''
        @ decimal (length (encode w (promptTemplate g)) + length (encode w d))
        @ js ''\<newline>''
        @ js ''- Maximum allowed: '' @ decimal (maxContextLength (openaiConfig g))
        @ js ''\<newline>''
        @ js ''- Diff tokens: '' @ decimal (length (encode w d)) @ js ''\<newline>\<newline>''"
  have gt: "length (encode w (promptTemplate g)) + length (encode w d)
              > maxContextLength (openaiConfig g)"
  proof (rule ccontr)
    assume "\<not> ?thesis"
    then have "checkContextLength g w d = Inr ()" by (simp add: guard_passes)
    with assms show False by simp
  qed
  have "Inl (JsError lm) = (Inl (JsError (too_large_headline @ ?mid @ too_large_advice)) :: thrown + unit)"
    using guard_message [OF gt] assms by (simp only: append_assoc)
  then have lm: "lm = too_large_headline @ ?mid @ too_large_advice"
    by (simp only: sum.inject thrown.inject)
  have "?mid \<noteq> []" by (simp add: js_def)
  then have "?mid @ too_large_advice \<noteq> too_large_advice"
    by (simp only: append_self_conv2 not_False_eq_True)
  then have "lm \<noteq> too_large_headline @ too_large_advice"
    unfolding lm by (simp only: same_append_eq not_False_eq_True)
  moreover have "prefix too_large_headline lm" unfolding lm by (rule prefixI) (rule refl)
  moreover have "suffix too_large_advice lm"
    unfolding lm suffix_def by (rule exI [of _ "too_large_headline @ ?mid"]) (simp only: append_assoc)
  ultimately show ?thesis by blast
qed

lemma main_accept_trace:
  assumes "constructor w = Inr g" and "execSync w git_diff_command = Inr d" and "trim d \<noteq> []"
    and "generateCommitMessage g w d = (t, Inr \<lparr>CommitMessage.content = c\<rparr>)"
    and "toLowerCase (question w confirmation_question) = js ''y''"
  shows "\<exists>rest. trace (main w) =
           ExecSync git_diff_command # t @
           [ConsoleLog (JStr suggestion_banner), ConsoleLog (JStr c),
            Question confirmation_question, ExecSync (commit_command c)] @ rest
         \<and> filter is_commit_call rest = []"
  using assms by (cases "execSync w (commit_command c)") (simp_all add: main_started run_accepted)

lemma commit_filter_accept:
  assumes "filter is_commit_call t = []" and "filter is_commit_call rest = []"
  shows "filter is_commit_call
           (ExecSync git_diff_command # t @
            [ConsoleLog (JStr suggestion_banner), ConsoleLog (JStr c),
             Question confirmation_question, ExecSync (commit_command c)] @ rest)
         = [ExecSync (commit_command c)]"
  using assms by (simp add: diff_not_commit commit_is_commit)

lemma main_declined_trace:
  assumes "constructor w = Inr g" and "execSync w git_diff_command = Inr d" and "trim d \<noteq> []"
    and "generateCommitMessage g w d = (t, Inr \<lparr>CommitMessage.content = c\<rparr>)"
    and "toLowerCase (question w confirmation_question) \<noteq> js ''y''"
  shows "main w = \<lparr>trace = ExecSync git_diff_command # t @
       [ConsoleLog (JStr suggestion_banner), ConsoleLog (JStr c), Question confirmation_question,
        ConsoleLog (JStr cancelled_notice)], exit_code = 0\<rparr>"
  using assms by (simp add: main_started run_declined)

lemma main_generate_fails:
  assumes "constructor w = Inr g" and "execSync w git_diff_command = Inr d" and "trim d \<noteq> []"
    and "generateCommitMessage g w d = (t, Inl e)"
  shows "main w = \<lparr>trace = ExecSync git_diff_command # t @
       [ConsoleError (message_or (js ''An unexpected error occurred'') e)], exit_code = 1\<rparr>"
  using assms by (simp add: main_started run_generate_fails)

lemma catch_context_length:
  assumes "status r = 400"
    and "opt_prop (opt_prop (data r) (js ''error'')) (js ''code'')
           = JStr (js ''context_length_exceeded'')"
  shows "completion_catch w (AxiosError m (Some r))
           = ([], Inl (JsError (too_large_headline @ too_large_advice)))"
  using assms by (simp add: Let_def)

lemma catch_other_http:
  assumes "\<not> (status r = 400
              \<and> opt_prop (opt_prop (data r) (js ''error'')) (js ''code'')
                  = JStr (js ''context_length_exceeded''))"
  shows "completion_catch w (AxiosError m (Some r))
           = ([ConsoleLog (data r)],
              Inl (JsError
                (case (if truthy (data r) then toString (data r) else Inr m) of
                   Inr s \<Rightarrow> cross_mark @ js '' Error generating commit message: '' @ s
                 | Inl f \<Rightarrow> engine_message w f)))"
  using assms by (auto simp: Let_def split: sum.splits)

lemma no_candidates:
  "opt_prop body (js ''choices'') = JUndefined \<or> opt_prop body (js ''choices'') = JArr []
     \<Longrightarrow> \<exists>f. first_choice_text body = Inl f"
  by (auto simp: first_choice_text_def opt_prop_def split: sum.splits)

lemma sample_guard_passes:
  "n \<le> 8000 \<Longrightarrow> checkContextLength sample_generator (sample_world k d n r a) x = Inr ()"
  by (simp add: guard_passes sample_world_def sample_generator_def)

lemma sample_first_choice: "first_choice_text (sample_body c) = Inr (trim c)"
  by (simp add: first_choice_text_def sample_body_def js_def)

lemma sample_generate:
  "n \<le> 8000 \<Longrightarrow>
   generateCommitMessage sample_generator (sample_world k d n (Inr (sample_body c)) a) x =
     ([HttpPost completions_url (request_body sample_generator (prompt_template_text @ x))
         (request_headers sample_generator)],
      Inr \<lparr>CommitMessage.content = trim c\<rparr>)"
  using generate_ok [of sample_generator "sample_world k d n (Inr (sample_body c)) a" x
      "sample_body c" "trim c"]
  by (simp add: sample_guard_passes sample_first_choice)
     (simp add: sample_world_def sample_generator_def)

lemma sample_reaches_question:
  assumes "trim d \<noteq> []" and "n \<le> 8000"
  shows "Question confirmation_question
           \<in> set (trace (main (sample_world (Some (js ''sk-test'')) d n (Inr (sample_body c)) a)))"
proof (cases "toLowerCase a = js ''y''")
  case True
  then have "toLowerCase (question (sample_world (Some (js ''sk-test'')) d n (Inr (sample_body c)) a)
                 confirmation_question) = js ''y''"
    by (simp add: sample_world_def)
  from main_accept_trace [OF constructor_sample _ assms(1) sample_generate [OF assms(2)] this]
  show ?thesis by (auto simp: sample_world_def)
next
  case False
  then have "toLowerCase (question (sample_world (Some (js ''sk-test'')) d n (Inr (sample_body c)) a)
                 confirmation_question) \<noteq> js ''y''"
    by (simp add: sample_world_def)
  from main_declined_trace [OF constructor_sample _ assms(1) sample_generate [OF assms(2)] this]
  show ?thesis by (simp add: sample_world_def)
qed

lemma sample_diff_nonblank: "trim (js ''+console.log('x')'') \<noteq> []"
  by (simp add: trim_def js_def isWhiteSpace_def)

lemma sample_accept_commits:
  assumes "trim d \<noteq> []" and "n \<le> 8000" and "toLowerCase a = js ''y''"
  shows "filter is_commit_call
           (trace (main (sample_world (Some (js ''sk-test'')) d n (Inr (sample_body c)) a)))
         = [ExecSync (commit_command (trim c))]"
proof -
  let ?w = "sample_world (Some (js ''sk-test'')) d n (Inr (sample_body c)) a"
  have d: "execSync ?w git_diff_command = Inr d" by (simp add: sample_world_def)
  have yes: "toLowerCase (question ?w confirmation_question) = js ''y''"
    using assms(3) by (simp add: sample_world_def)
  from main_accept_trace [OF constructor_sample d assms(1) sample_generate [OF assms(2)] yes]
  obtain rest where
    "trace (main ?w) =
       ExecSync git_diff_command #
       [HttpPost completions_url (request_body sample_generator (prompt_template_text @ d))
          (request_headers sample_generator)] @
       [ConsoleLog (JStr suggestion_banner), ConsoleLog (JStr (trim c)),
        Question confirmation_question, ExecSync (commit_command (trim c))] @ rest"
    and "filter is_commit_call rest = []" by blast
  then show ?thesis by (simp add: diff_not_commit commit_is_commit)
qed

lemma sample_guard_message:
  "checkContextLength sample_generator (sample_world k d 9000 r a) x =
     Inl (JsError (too_large_headline
       @ js ''- Total tokens: 18000\<newline>- Maximum allowed: 16385\<newline>- Diff tokens: 9000\<newline>\<newline>''
       @ too_large_advice))"
proof -
  have "length (encode (sample_world k d 9000 r a) (promptTemplate sample_generator))
          + length (encode (sample_world k d 9000 r a) x)
        > maxContextLength (openaiConfig sample_generator)"
    by (simp add: sample_world_def sample_generator_def)
  from guard_message [OF this] show ?thesis
    by (simp add: sample_world_def sample_generator_def decimal.simps js_def)
qed

lemma sample_guard_run:
  assumes "trim d \<noteq> []"
  shows "main (sample_world (Some (js ''sk-test'')) d 9000 r a) =
     \<lparr>trace = [ExecSync git_diff_command,
        ConsoleError (too_large_headline
          @ js ''- Total tokens: 18000\<newline>- Maximum allowed: 16385\<newline>- Diff tokens: 9000\<newline>\<newline>''
          @ too_large_advice)],
      exit_code = 1\<rparr>"
proof -
  let ?w = "sample_world (Some (js ''sk-test'')) d 9000 r a"
  have d: "execSync ?w git_diff_command = Inr d" by (simp add: sample_world_def)
  from main_generate_fails [OF constructor_sample d assms generate_guard_fails [OF sample_guard_message]]
  show ?thesis by simp
qed

lemma sample_throw_run:
  assumes "trim d \<noteq> []" and "n \<le> 8000"
  shows "main (sample_world (Some (js ''sk-test'')) d n (Inl x) a) =
     \<lparr>trace = ExecSync git_diff_command
        # HttpPost completions_url (request_body sample_generator (prompt_template_text @ d))
            (request_headers sample_generator)
        # fst (completion_catch (sample_world (Some (js ''sk-test'')) d n (Inl x) a) x)
        @ [ConsoleError (message_or (js ''An unexpected error occurred'')
             (case snd (completion_catch (sample_world (Some (js ''sk-test'')) d n (Inl x) a) x) of
                Inl e \<Rightarrow> e | Inr v \<Rightarrow> NonError))],
      exit_code = 1\<rparr>"
proof -
  let ?w = "sample_world (Some (js ''sk-test'')) d n (Inl x) a"
  have d: "execSync ?w git_diff_command = Inr d" by (simp add: sample_world_def)
  obtain t e where c: "completion_catch ?w x = (t, Inl e)"
    using completion_catch_fails by blast
  have "axios_post ?w completions_url
          (request_body sample_generator (promptTemplate sample_generator @ d))
          (request_headers sample_generator) = Inl x"
    by (simp add: sample_world_def)
  from generate_throws [OF sample_guard_passes [OF assms(2)] this]
  have "generateCommitMessage sample_generator ?w d =
          (HttpPost completions_url (request_body sample_generator (prompt_template_text @ d))
             (request_headers sample_generator) # t, Inl e)"
    by (simp add: c sample_generator_def)
  from main_generate_fails [OF constructor_sample d assms(1) this] show ?thesis
    by (simp add: c)
qed

lemma sample_diff_small: "trim (js ''+x'') \<noteq> []"
  by (simp add: trim_def js_def isWhiteSpace_def)

lemma context_length_reply_code:
  "opt_prop (opt_prop (JObj [(js ''error'',
                            JObj [(js ''message'', JStr (js ''Please reduce the length of the messages.'')),
                                  (js ''type'', JStr (js ''invalid_request_error'')),
                                  (js ''param'', JStr (js ''messages'')),
                                  (js ''code'', JStr (js ''context_length_exceeded''))])])
      (js ''error'')) (js ''code'') = JStr (js ''context_length_exceeded'')"
  by (simp add: opt_prop_def js_def)

lemma sample_context_run:
  "main (sample_world (Some (js ''sk-test'')) (js ''+x'') 5 (Inl context_length_reply) (js ''y'')) =
     \<lparr>trace =
        [ExecSync git_diff_command,
         HttpPost completions_url (request_body sample_generator (prompt_template_text @ js ''+x''))
           (request_headers sample_generator),
         ConsoleError (too_large_headline @ too_large_advice)],
      exit_code = 1\<rparr>"
proof -
  have "completion_catch w context_length_reply
          = ([], Inl (JsError (too_large_headline @ too_large_advice)))" for w
    unfolding context_length_reply_def
    by (rule catch_context_length) (simp_all add: context_length_reply_code)
  with sample_throw_run [OF sample_diff_small, of 5 context_length_reply "js ''y''"]
  show ?thesis by simp
qed

section \<open>The claims\<close>

subsection \<open>Accept path\<close>

text \<open>
  Claim C1, the accept path. Take any run in which the confirmation question is asked and
  the user types \<open>y\<close>. Then the staged diff was read, the completion request returned a
  body whose first choice has a string \<open>c\<close> as its message content, and the trace holds
  exactly one commit invocation: the command \<open>git commit -m "\<dots>"\<close> whose quoted part is
  \<open>trim c\<close> with every double quote replaced by a backslash and a double quote.
\<close>

theorem accept_path_commits_once:
  assumes "Question confirmation_question \<in> set (trace (main w))"
    and "question w confirmation_question = js ''y''"
  shows "\<exists>g d body c.
      constructor w = Inr g \<and> execSync w git_diff_command = Inr d \<and>
      axios_post w completions_url (request_body g (promptTemplate g @ d)) (request_headers g)
        = Inr body \<and>
      opt_prop (opt_prop (opt_prop (opt_prop body (js ''choices'')) (js ''0'')) (js ''message''))
        (js ''content'') = JStr c \<and>
      filter is_commit_call (trace (main w)) =
        [ExecSync (js ''git commit -m '' @ [dquote]
           @ concat (map (\<lambda>u. if u = dquote then [backslash, dquote] else [u]) (trim c))
           @ [dquote])]"
proof -
  from assms(1) have "filter is_question (trace (main w)) \<noteq> []" by (rule question_in_trace)
  then obtain g d t m where g: "constructor w = Inr g"
    and d: "execSync w git_diff_command = Inr d" and nb: "trim d \<noteq> []"
    and gen: "generateCommitMessage g w d = (t, Inr \<lparr>CommitMessage.content = m\<rparr>)"
    using reaches_question by blast
  from gen obtain body where
    body: "axios_post w completions_url (request_body g (promptTemplate g @ d)) (request_headers g)
             = Inr body"
    and fct: "first_choice_text body = Inr m"
    using generate_success_inversion [OF gen] by auto
  from fct obtain c where
    c: "opt_prop (opt_prop (opt_prop (opt_prop body (js ''choices'')) (js ''0'')) (js ''message''))
          (js ''content'') = JStr c" and m: "m = trim c"
    using first_choice_raw by blast
  from assms(2) have yes: "toLowerCase (question w confirmation_question) = js ''y''"
    by (simp add: toLowerCase_y)
  from main_accept_trace [OF g d nb gen yes] obtain rest where
    tr: "trace (main w) =
           ExecSync git_diff_command # t @
           [ConsoleLog (JStr suggestion_banner), ConsoleLog (JStr m),
            Question confirmation_question, ExecSync (commit_command m)] @ rest"
    and rest: "filter is_commit_call rest = []" by blast
  from gen have t: "filter is_commit_call t = []" by (simp add: generate_trace)
  have "filter is_commit_call (trace (main w)) = [ExecSync (commit_command m)]"
    unfolding tr using t rest by (rule commit_filter_accept)
  then have "filter is_commit_call (trace (main w)) =
        [ExecSync (js ''git commit -m '' @ [dquote]
           @ concat (map (\<lambda>u. if u = dquote then [backslash, dquote] else [u]) (trim c))
           @ [dquote])]"
    by (simp add: commit_command_def replace_dquotes_concat m)
  with g d body c show ?thesis by blast
qed

theorem accept_path_commits_once_witness:
  "filter is_commit_call
     (trace (main (sample_world (Some (js ''sk-test'')) (js ''+console.log('x')'') 5
        (Inr (sample_body (js '' feat: add '' @ [dquote] @ js ''debug'' @ [dquote] @ js '' log '')))
        (js ''y''))))
   = [ExecSync (js ''git commit -m '' @ [dquote] @ js ''feat: add '' @ [backslash, dquote]
        @ js ''debug'' @ [backslash, dquote] @ js '' log'' @ [dquote])]"
proof -
  let ?w = "sample_world (Some (js ''sk-test'')) (js ''+console.log('x')'') 5
        (Inr (sample_body (js '' feat: add '' @ [dquote] @ js ''debug'' @ [dquote] @ js '' log '')))
        (js ''y'')"
  have h1: "Question confirmation_question \<in> set (trace (main ?w))"
    by (rule sample_reaches_question [OF sample_diff_nonblank]) simp
  have h2: "question ?w confirmation_question = js ''y''"
    by (simp add: sample_world_def)
  from accept_path_commits_once [OF h1 h2] obtain g d body c where
    b: "axios_post ?w completions_url (request_body g (promptTemplate g @ d)) (request_headers g)
          = Inr body"
    and c: "opt_prop (opt_prop (opt_prop (opt_prop body (js ''choices'')) (js ''0''))
              (js ''message'')) (js ''content'') = JStr c"
    and f: "filter is_commit_call (trace (main ?w)) =
        [ExecSync (js ''git commit -m '' @ [dquote]
           @ concat (map (\<lambda>u. if u = dquote then [backslash, dquote] else [u]) (trim c))
           @ [dquote])]"
    by blast
  from b have "body = sample_body (js '' feat: add '' @ [dquote] @ js ''debug'' @ [dquote] @ js '' log '')"
    by (simp add: sample_world_def)
  with c have "c = js '' feat: add '' @ [dquote] @ js ''debug'' @ [dquote] @ js '' log ''"
    by (simp add: sample_body_def opt_prop_def js_def)
  with f show ?thesis
    by (simp add: trim_def isWhiteSpace_def js_def dquote_def backslash_def)
qed

subsection \<open>Confirmation semantics\<close>

text \<open>
  Claim C2, the confirmation semantics, as the program has them. The answer is accepted
  exactly when it is \<open>y\<close> or \<open>Y\<close>: the comparison is made after lower-casing. For every
  other line (the empty line, \<open>yes\<close>, \<open>n\<close>, \<dots>) a run that asked the question makes no
  commit invocation, ends by printing the cancellation notice and exits with status 0.
\<close>

theorem confirmation_accepts_y_or_Y:
  assumes "Question confirmation_question \<in> set (trace (main w))"
  shows "(snd (promptUser w) \<longleftrightarrow>
            question w confirmation_question = js ''y''
            \<or> question w confirmation_question = js ''Y'')
       \<and> (question w confirmation_question \<noteq> js ''y''
            \<and> question w confirmation_question \<noteq> js ''Y''
          \<longrightarrow> filter is_commit_call (trace (main w)) = []
              \<and> last (trace (main w)) = ConsoleLog (JStr cancelled_notice)
              \<and> exit_code (main w) = 0)"
proof -
  from assms have "filter is_question (trace (main w)) \<noteq> []" by (rule question_in_trace)
  then obtain g d t m where g: "constructor w = Inr g"
    and d: "execSync w git_diff_command = Inr d" and nb: "trim d \<noteq> []"
    and gen: "generateCommitMessage g w d = (t, Inr \<lparr>CommitMessage.content = m\<rparr>)"
    using reaches_question by blast
  from gen have t: "filter is_commit_call t = []" by (simp add: generate_trace)
  have accept: "snd (promptUser w) \<longleftrightarrow>
            question w confirmation_question = js ''y''
            \<or> question w confirmation_question = js ''Y''"
    by (simp add: promptUser_def toLowerCase_y)
  have "filter is_commit_call (trace (main w)) = []
          \<and> last (trace (main w)) = ConsoleLog (JStr cancelled_notice)
          \<and> exit_code (main w) = 0"
    if "question w confirmation_question \<noteq> js ''y''"
      and "question w confirmation_question \<noteq> js ''Y''"
  proof -
    from that have "toLowerCase (question w confirmation_question) \<noteq> js ''y''"
      by (simp add: toLowerCase_y)
    from main_declined_trace [OF g d nb gen this] t show ?thesis
      by (simp add: diff_not_commit)
  qed
  with accept show ?thesis by blast
qed

theorem confirmation_accepts_y_or_Y_witness:
  "filter is_commit_call
     (trace (main (sample_world (Some (js ''sk-test'')) (js ''+x'') 5
        (Inr (sample_body (js ''feat: add debug log''))) (js ''n'')))) = []
   \<and> last (trace (main (sample_world (Some (js ''sk-test'')) (js ''+x'') 5
        (Inr (sample_body (js ''feat: add debug log''))) (js ''n''))))
       = ConsoleLog (JStr cancelled_notice)
   \<and> exit_code (main (sample_world (Some (js ''sk-test'')) (js ''+x'') 5
        (Inr (sample_body (js ''feat: add debug log''))) (js ''n''))) = 0"
proof -
  let ?w = "sample_world (Some (js ''sk-test'')) (js ''+x'') 5
        (Inr (sample_body (js ''feat: add debug log''))) (js ''n'')"
  have h: "Question confirmation_question \<in> set (trace (main ?w))"
    by (rule sample_reaches_question [OF sample_diff_small]) simp
  have "question ?w confirmation_question \<noteq> js ''y''
        \<and> question ?w confirmation_question \<noteq> js ''Y''"
    by (simp add: sample_world_def js_def)
  with confirmation_accepts_y_or_Y [OF h] show ?thesis by blast
qed

text \<open>
  The answer \<open>Y\<close> is not a decline: the question is answered \<open>Y\<close> and the commit command
  is run.
\<close>

theorem confirmation_upper_case_counterexample:
  "snd (promptUser (sample_world (Some (js ''sk-test'')) (js ''+x'') 5
          (Inr (sample_body (js ''feat: add debug log''))) (js ''Y'')))
   \<and> filter is_commit_call
       (trace (main (sample_world (Some (js ''sk-test'')) (js ''+x'') 5
          (Inr (sample_body (js ''feat: add debug log''))) (js ''Y''))))
     = [ExecSync (js ''git commit -m '' @ [dquote] @ js ''feat: add debug log'' @ [dquote])]"
proof -
  have low: "toLowerCase (js ''Y'') = js ''y''"
    by (simp add: toLowerCase_y)
  have "trim (js ''feat: add debug log'') = js ''feat: add debug log''"
    by (simp add: trim_def js_def isWhiteSpace_def)
  moreover have "dquote \<notin> set (js ''feat: add debug log'')"
    by (simp add: js_def dquote_def)
  ultimately have "commit_command (trim (js ''feat: add debug log''))
      = js ''git commit -m '' @ [dquote] @ js ''feat: add debug log'' @ [dquote]"
    by (simp add: commit_command_def replace_dquotes_id)
  with sample_accept_commits [OF sample_diff_small _ low, of 5 "js ''feat: add debug log''"] low
  show ?thesis by (simp add: promptUser_def sample_world_def)
qed

subsection \<open>Context guard\<close>

text \<open>
  Claim C3, the context guard. If the token count of the prompt template plus the token
  count of the diff exceeds the configured ceiling, \<open>generateCommitMessage\<close> throws the
  too-large error, whose message carries the total, the ceiling and the diff's token count,
  and does so with no event at all, hence before any HTTP request. For a started process
  whose staged diff is this (non-blank) diff, the whole run is the diff command followed
  by that message on the error stream, and the exit status is 1.
\<close>

theorem context_guard_rejects_before_network:
  assumes "length (encode w (promptTemplate g)) + length (encode w d)
             > maxContextLength (openaiConfig g)"
  shows "\<exists>msg.
      msg = too_large_headline
        @ js ''- Total tokens: ''
        @ decimal (length (encode w (promptTemplate g)) + length (encode w d))
        @ js ''\<newline>''
        @ js ''- Maximum allowed: '' @ decimal (maxContextLength (openaiConfig g))
        @ js ''\<newline>''
        @ js ''- Diff tokens: '' @ decimal (length (encode w d)) @ js ''\<newline>\<newline>''
        @ too_large_advice
      \<and> generateCommitMessage g w d = ([], Inl (JsError msg))
      \<and> (constructor w = Inr g \<and> execSync w git_diff_command = Inr d \<and> trim d \<noteq> []
           \<longrightarrow> main w = \<lparr>trace = [ExecSync git_diff_command, ConsoleError msg], exit_code = 1\<rparr>
               \<and> filter is_network_call (trace (main w)) = [])"
proof -
  from assms have gen: "generateCommitMessage g w d = ([], Inl (JsError
        (too_large_headline
        @ js ''- Total tokens: ''
        @ decimal (length (encode w (promptTemplate g)) + length (encode w d))
        @ js ''\<newline>''
        @ js ''- Maximum allowed: '' @ decimal (maxContextLength (openaiConfig g))
        @ js ''\<newline>''
        @ js ''- Diff tokens: '' @ decimal (length (encode w d)) @ js ''\<newline>\<newline>''
        @ too_large_advice)))"
    using guard_message [OF assms] by (simp add: generate_guard_fails)
  then show ?thesis
    by (simp add: main_started run_generate_fails)
qed

theorem context_guard_rejects_before_network_witness:
  "main (sample_world (Some (js ''sk-test'')) (js ''+x'') 9000
      (Inr (sample_body (js ''feat: add debug log''))) (js ''y'')) =
     \<lparr>trace = [ExecSync git_diff_command,
        ConsoleError (too_large_headline
          @ js ''- Total tokens: 18000\<newline>- Maximum allowed: 16385\<newline>- Diff tokens: 9000\<newline>\<newline>''
          @ too_large_advice)],
      exit_code = 1\<rparr>"
proof -
  let ?w = "sample_world (Some (js ''sk-test'')) (js ''+x'') 9000
      (Inr (sample_body (js ''feat: add debug log''))) (js ''y'')"
  have h: "length (encode ?w (promptTemplate sample_generator)) + length (encode ?w (js ''+x''))
             > maxContextLength (openaiConfig sample_generator)"
    by (simp add: sample_world_def sample_generator_def)
  have d: "execSync ?w git_diff_command = Inr (js ''+x'')" by (simp add: sample_world_def)
  from context_guard_rejects_before_network [OF h] constructor_sample d sample_diff_small
  have "main ?w = \<lparr>trace = [ExecSync git_diff_command,
        ConsoleError (too_large_headline
        @ js ''- Total tokens: ''
        @ decimal (length (encode ?w (promptTemplate sample_generator)) + length (encode ?w (js ''+x'')))
        @ js ''\<newline>''
        @ js ''- Maximum allowed: '' @ decimal (maxContextLength (openaiConfig sample_generator))
        @ js ''\<newline>''
        @ js ''- Diff tokens: '' @ decimal (length (encode ?w (js ''+x''))) @ js ''\<newline>\<newline>''
        @ too_large_advice)], exit_code = 1\<rparr>"
    by blast
  then show ?thesis
    by (simp add: sample_world_def sample_generator_def decimal.simps js_def)
qed

subsection \<open>Empty diff\<close>

text \<open>
  Claim C4, the empty diff. If the trimmed text of the staged diff has length zero, the
  \<open>isEmpty\<close> flag is true and the run consists of the diff command and the notice that
  nothing is staged; no HTTP request is made and the exit status is 0.
\<close>

theorem empty_diff_short_circuit:
  assumes "constructor w = Inr g"
    and "execSync w git_diff_command = Inr d"
    and "length (trim d) = 0"
  shows "snd (getStagedDiff w) = Inr \<lparr>GitDiff.content = d, isEmpty = True\<rparr>
       \<and> main w = \<lparr>trace = [ExecSync git_diff_command, ConsoleLog (JStr no_staged_notice)],
                    exit_code = 0\<rparr>
       \<and> filter is_network_call (trace (main w)) = []"
  using assms by (simp add: main_started run_empty getStagedDiff_def)

theorem empty_diff_short_circuit_witness:
  "main (sample_world (Some (js ''sk-test'')) (js '' \<newline>'') 5
      (Inr (sample_body (js ''feat: add debug log''))) (js ''y'')) =
     \<lparr>trace = [ExecSync git_diff_command, ConsoleLog (JStr no_staged_notice)], exit_code = 0\<rparr>"
proof -
  let ?w = "sample_world (Some (js ''sk-test'')) (js '' \<newline>'') 5
      (Inr (sample_body (js ''feat: add debug log''))) (js ''y'')"
  have d: "execSync ?w git_diff_command = Inr (js '' \<newline>'')" by (simp add: sample_world_def)
  have e: "length (trim (js '' \<newline>'')) = 0" by (simp add: trim_def js_def isWhiteSpace_def)
  from empty_diff_short_circuit [OF constructor_sample d e] show ?thesis by blast
qed

subsection \<open>Context-length error of the provider\<close>

text \<open>
  Claim C5, the provider's context-length error, as the program maps it. When the request
  fails with status 400 and the error code \<open>context_length_exceeded\<close>, the run prints the
  headline and the advice of the too-large error, with nothing between them, and exits
  with status 1. Every message of the local guard starts with the same headline and ends
  with the same advice, but is never this message: the guard puts the token counts between
  the two.
\<close>

theorem provider_context_length_message:
  assumes "constructor w = Inr g" and "execSync w git_diff_command = Inr d" and "trim d \<noteq> []"
    and "checkContextLength g w d = Inr ()"
    and "axios_post w completions_url (request_body g (promptTemplate g @ d)) (request_headers g)
           = Inl (AxiosError m (Some r))"
    and "status r = 400"
    and "opt_prop (opt_prop (data r) (js ''error'')) (js ''code'')
           = JStr (js ''context_length_exceeded'')"
  shows "main w =
           \<lparr>trace =
              [ExecSync git_diff_command,
               HttpPost completions_url (request_body g (promptTemplate g @ d)) (request_headers g),
               ConsoleError (too_large_headline @ too_large_advice)],
            exit_code = 1\<rparr>
       \<and> (\<forall>g' w' d' lm. checkContextLength g' w' d' = Inl (JsError lm) \<longrightarrow>
             prefix too_large_headline lm \<and> suffix too_large_advice lm
             \<and> lm \<noteq> too_large_headline @ too_large_advice)"
proof -
  have "generateCommitMessage g w d =
          ([HttpPost completions_url (request_body g (promptTemplate g @ d)) (request_headers g)],
           Inl (JsError (too_large_headline @ too_large_advice)))"
    using assms(4-7) by (simp add: generate_throws catch_context_length)
  from main_generate_fails [OF assms(1-3) this]
  have "main w =
           \<lparr>trace =
              [ExecSync git_diff_command,
               HttpPost completions_url (request_body g (promptTemplate g @ d)) (request_headers g),
               ConsoleError (too_large_headline @ too_large_advice)],
            exit_code = 1\<rparr>"
    by simp
  then show ?thesis using guard_message_shape by blast
qed

theorem provider_context_length_message_witness:
  "main (sample_world (Some (js ''sk-test'')) (js ''+x'') 5 (Inl context_length_reply) (js ''y'')) =
     \<lparr>trace =
        [ExecSync git_diff_command,
         HttpPost completions_url
           (request_body sample_generator (promptTemplate sample_generator @ js ''+x''))
           (request_headers sample_generator),
         ConsoleError (too_large_headline @ too_large_advice)],
      exit_code = 1\<rparr>
   \<and> prefix too_large_headline
        (too_large_headline
          @ js ''- Total tokens: 18000\<newline>- Maximum allowed: 16385\<newline>- Diff tokens: 9000\<newline>\<newline>''
          @ too_large_advice)
   \<and> too_large_headline
          @ js ''- Total tokens: 18000\<newline>- Maximum allowed: 16385\<newline>- Diff tokens: 9000\<newline>\<newline>''
          @ too_large_advice
       \<noteq> too_large_headline @ too_large_advice"
proof -
  let ?w = "sample_world (Some (js ''sk-test'')) (js ''+x'') 5 (Inl context_length_reply) (js ''y'')"
  let ?r = "\<lparr>status = 400,
              data = JObj [(js ''error'',
                            JObj [(js ''message'', JStr (js ''Please reduce the length of the messages.'')),
                                  (js ''type'', JStr (js ''invalid_request_error'')),
                                  (js ''param'', JStr (js ''messages'')),
                                  (js ''code'', JStr (js ''context_length_exceeded''))])]\<rparr>"
  have d: "execSync ?w git_diff_command = Inr (js ''+x'')" by (simp add: sample_world_def)
  have guard: "checkContextLength sample_generator ?w (js ''+x'') = Inr ()"
    by (rule sample_guard_passes) simp
  have post: "axios_post ?w completions_url
                (request_body sample_generator (promptTemplate sample_generator @ js ''+x''))
                (request_headers sample_generator)
              = Inl (AxiosError (js ''Request failed with status code 400'') (Some ?r))"
    by (simp add: sample_world_def context_length_reply_def)
  have st: "status ?r = 400" by simp
  have code: "opt_prop (opt_prop (data ?r) (js ''error'')) (js ''code'')
                = JStr (js ''context_length_exceeded'')"
    by (simp add: context_length_reply_code)
  from provider_context_length_message [OF constructor_sample d sample_diff_small guard post st code]
    sample_guard_message [of None "[]" "Inl NonError" "[]" "[]"]
  show ?thesis by blast
qed

text \<open>
  The two messages differ: one run is rejected by the provider, the other by the local
  guard, and the lines they print on the error stream are not the same.
\<close>

theorem provider_message_differs_counterexample:
  "trace (main (sample_world (Some (js ''sk-test'')) (js ''+x'') 5
            (Inl context_length_reply) (js ''y''))) =
     [ExecSync git_diff_command,
      HttpPost completions_url (request_body sample_generator (prompt_template_text @ js ''+x''))
        (request_headers sample_generator),
      ConsoleError (too_large_headline @ too_large_advice)]
   \<and> trace (main (sample_world (Some (js ''sk-test'')) (js ''+x'') 9000
            (Inl context_length_reply) (js ''y''))) =
     [ExecSync git_diff_command,
      ConsoleError (too_large_headline
        @ js ''- Total tokens: 18000\<newline>- Maximum allowed: 16385\<newline>- Diff tokens: 9000\<newline>\<newline>''
        @ too_large_advice)]
   \<and> too_large_headline @ too_large_advice
       \<noteq> too_large_headline
          @ js ''- Total tokens: 18000\<newline>- Maximum allowed: 16385\<newline>- Diff tokens: 9000\<newline>\<newline>''
          @ too_large_advice"
proof -
  have "too_large_headline
          @ js ''- Total tokens: 18000\<newline>- Maximum allowed: 16385\<newline>- Diff tokens: 9000\<newline>\<newline>''
          @ too_large_advice \<noteq> too_large_headline @ too_large_advice"
    using guard_message_shape [OF sample_guard_message [of None "[]" "Inl NonError" "[]" "[]"]]
    by blast
  then have "too_large_headline @ too_large_advice
       \<noteq> too_large_headline
          @ js ''- Total tokens: 18000\<newline>- Maximum allowed: 16385\<newline>- Diff tokens: 9000\<newline>\<newline>''
          @ too_large_advice"
    by (rule not_sym)
  with sample_context_run sample_guard_run [OF sample_diff_small, of "Inl context_length_reply" "js ''y''"]
  show ?thesis by simp
qed

subsection \<open>Other HTTP errors\<close>

text \<open>
  Claim C6, the other HTTP errors, as the program reports them. When the request fails
  with a response that is not the 400 context-length case, the payload of the response is
  handed to \<open>console.log\<close> as it is, then one line goes to the error stream, and the exit
  status is 1; no question is asked and nothing is committed. When the payload is a
  non-empty string, the line is the fixed prefix followed by that string; when the payload
  is falsy, it is the prefix followed by the message of the HTTP client's error.
\<close>

theorem other_http_error_surface:
  assumes "constructor w = Inr g" and "execSync w git_diff_command = Inr d" and "trim d \<noteq> []"
    and "checkContextLength g w d = Inr ()"
    and "axios_post w completions_url (request_body g (promptTemplate g @ d)) (request_headers g)
           = Inl (AxiosError m (Some r))"
    and "\<not> (status r = 400
              \<and> opt_prop (opt_prop (data r) (js ''error'')) (js ''code'')
                  = JStr (js ''context_length_exceeded''))"
  shows "\<exists>line.
      main w =
        \<lparr>trace =
           [ExecSync git_diff_command,
            HttpPost completions_url (request_body g (promptTemplate g @ d)) (request_headers g),
            ConsoleLog (data r),
            ConsoleError line],
         exit_code = 1\<rparr>
      \<and> (\<forall>s. data r = JStr s \<and> s \<noteq> [] \<longrightarrow>
             line = cross_mark @ js '' Error generating commit message: '' @ s)
      \<and> (\<not> truthy (data r) \<longrightarrow>
             line = cross_mark @ js '' Error generating commit message: '' @ m)"
proof -
  let ?line = "case (if truthy (data r) then toString (data r) else Inr m) of
                 Inr s \<Rightarrow> cross_mark @ js '' Error generating commit message: '' @ s
               | Inl f \<Rightarrow> engine_message w f"
  have "generateCommitMessage g w d =
          ([HttpPost completions_url (request_body g (promptTemplate g @ d)) (request_headers g),
            ConsoleLog (data r)],
           Inl (JsError ?line))"
    using assms(4,5) catch_other_http [OF assms(6)] by (simp add: generate_throws)
  from main_generate_fails [OF assms(1-3) this]
  have run: "main w =
        \<lparr>trace =
           [ExecSync git_diff_command,
            HttpPost completions_url (request_body g (promptTemplate g @ d)) (request_headers g),
            ConsoleLog (data r),
            ConsoleError ?line],
         exit_code = 1\<rparr>"
    by simp
  have text_payload: "?line = cross_mark @ js '' Error generating commit message: '' @ s"
    if "data r = JStr s \<and> s \<noteq> []" for s
    using that by simp
  have falsy_payload: "?line = cross_mark @ js '' Error generating commit message: '' @ m"
    if "\<not> truthy (data r)"
    using that by simp
  from run text_payload falsy_payload show ?thesis by blast
qed

theorem other_http_error_surface_witness:
  "main (sample_world (Some (js ''sk-test'')) (js ''+x'') 5
      (Inl (AxiosError (js ''Request failed with status code 503'')
         (Some \<lparr>status = 503, data = JStr (js ''Service Unavailable'')\<rparr>))) (js ''y'')) =
     \<lparr>trace =
        [ExecSync git_diff_command,
         HttpPost completions_url
           (request_body sample_generator (promptTemplate sample_generator @ js ''+x''))
           (request_headers sample_generator),
         ConsoleLog (JStr (js ''Service Unavailable'')),
         ConsoleError (cross_mark @ js '' Error generating commit message: ''
                       @ js ''Service Unavailable'')],
      exit_code = 1\<rparr>
   \<and> main (sample_world (Some (js ''sk-test'')) (js ''+x'') 5
      (Inl (AxiosError (js ''Request failed with status code 502'')
         (Some \<lparr>status = 502, data = JStr []\<rparr>))) (js ''y'')) =
     \<lparr>trace =
        [ExecSync git_diff_command,
         HttpPost completions_url
           (request_body sample_generator (promptTemplate sample_generator @ js ''+x''))
           (request_headers sample_generator),
         ConsoleLog (JStr []),
         ConsoleError (cross_mark @ js '' Error generating commit message: ''
                       @ js ''Request failed with status code 502'')],
      exit_code = 1\<rparr>"
proof -
  have run: "\<exists>line.
      main (sample_world (Some (js ''sk-test'')) (js ''+x'') 5
              (Inl (AxiosError m (Some \<lparr>status = st, data = JStr p\<rparr>))) (js ''y'')) =
        \<lparr>trace =
           [ExecSync git_diff_command,
            HttpPost completions_url
              (request_body sample_generator (promptTemplate sample_generator @ js ''+x''))
              (request_headers sample_generator),
            ConsoleLog (JStr p),
            ConsoleError line],
         exit_code = 1\<rparr>
      \<and> (p \<noteq> [] \<longrightarrow> line = cross_mark @ js '' Error generating commit message: '' @ p)
      \<and> (p = [] \<longrightarrow> line = cross_mark @ js '' Error generating commit message: '' @ m)"
    if st: "st \<noteq> 400" for m st p
  proof -
    let ?r = "\<lparr>status = st, data = JStr p\<rparr>"
    let ?w = "sample_world (Some (js ''sk-test'')) (js ''+x'') 5
                (Inl (AxiosError m (Some ?r))) (js ''y'')"
    have d: "execSync ?w git_diff_command = Inr (js ''+x'')" by (simp add: sample_world_def)
    have guard: "checkContextLength sample_generator ?w (js ''+x'') = Inr ()"
      by (rule sample_guard_passes) simp
    have post: "axios_post ?w completions_url
                  (request_body sample_generator (promptTemplate sample_generator @ js ''+x''))
                  (request_headers sample_generator)
                = Inl (AxiosError m (Some ?r))"
      by (simp add: sample_world_def)
    have other: "\<not> (status ?r = 400
                \<and> opt_prop (opt_prop (data ?r) (js ''error'')) (js ''code'')
                    = JStr (js ''context_length_exceeded''))"
      using st by simp
    from other_http_error_surface [OF constructor_sample d sample_diff_small guard post other]
    show ?thesis by simp
  qed
  have text_payload: "js ''Service Unavailable'' \<noteq> []" by (simp add: js_def)
  from run [of 503 "js ''Request failed with status code 503'' " "js ''Service Unavailable''"]
    run [of 502 "js ''Request failed with status code 502''" "[]"] text_payload
  show ?thesis by auto
qed

text \<open>
  A response with status 500 and an object as payload: the line on the error stream
  holds neither the status nor the provider's text.
\<close>

theorem http_status_absent_counterexample:
  "main (sample_world (Some (js ''sk-test'')) (js ''+x'') 5 (Inl server_error_reply) (js ''y'')) =
     \<lparr>trace =
        [ExecSync git_diff_command,
         HttpPost completions_url (request_body sample_generator (prompt_template_text @ js ''+x''))
           (request_headers sample_generator),
         ConsoleLog (JObj [(js ''error'',
                            JObj [(js ''message'', JStr (js ''The server had an error'')),
                                  (js ''type'', JStr (js ''server_error'')),
                                  (js ''param'', JNull),
                                  (js ''code'', JNull)])]),
         ConsoleError (cross_mark @ js '' Error generating commit message: [object Object]'')],
      exit_code = 1\<rparr>
   \<and> \<not> sublist (js ''500'')
          (cross_mark @ js '' Error generating commit message: [object Object]'')
   \<and> \<not> sublist (js ''The server had an error'')
          (cross_mark @ js '' Error generating commit message: [object Object]'')"
proof -
  have "completion_catch w server_error_reply
          = ([ConsoleLog (JObj [(js ''error'',
                            JObj [(js ''message'', JStr (js ''The server had an error'')),
                                  (js ''type'', JStr (js ''server_error'')),
                                  (js ''param'', JNull),
                                  (js ''code'', JNull)])])],
             Inl (JsError (cross_mark @ js '' Error generating commit message: [object Object]'')))"
    for w
    by (simp add: server_error_reply_def Let_def js_def)
  with sample_throw_run [OF sample_diff_small, of 5 server_error_reply "js ''y''"]
  have run: "main (sample_world (Some (js ''sk-test'')) (js ''+x'') 5 (Inl server_error_reply) (js ''y'')) =
     \<lparr>trace =
        [ExecSync git_diff_command,
         HttpPost completions_url (request_body sample_generator (prompt_template_text @ js ''+x''))
           (request_headers sample_generator),
         ConsoleLog (JObj [(js ''error'',
                            JObj [(js ''message'', JStr (js ''The server had an error'')),
                                  (js ''type'', JStr (js ''server_error'')),
                                  (js ''param'', JNull),
                                  (js ''code'', JNull)])]),
         ConsoleError (cross_mark @ js '' Error generating commit message: [object Object]'')],
      exit_code = 1\<rparr>"
    by simp
  have s1: "\<not> sublist (js ''500'')
          (cross_mark @ js '' Error generating commit message: [object Object]'')"
    by (simp add: js_def cross_mark_def sublist_code prefix_code)
  have s2: "\<not> sublist (js ''The server had an error'')
          (cross_mark @ js '' Error generating commit message: [object Object]'')"
    by (simp add: js_def cross_mark_def sublist_code prefix_code)
  from run s1 s2 show ?thesis by blast
qed

subsection \<open>Missing credential\<close>

text \<open>
  Claim C7, the missing credential. If \<open>OPENAI_API_KEY\<close> is absent, the constructor
  throws, the runtime reports the error with the setup instruction, and the process ends
  with status 1; no HTTP request is made and no question is asked.
\<close>

theorem missing_credential_exits:
  assumes "env_OPENAI_API_KEY w = None"
  shows "main w =
           \<lparr>trace = [Uncaught (JsError (cross_mark
               @ js '' OPENAI_API_KEY is not set. Please export it in your shell config.''))],
            exit_code = 1\<rparr>
       \<and> exit_code (main w) \<noteq> 0
       \<and> filter is_network_call (trace (main w)) = []
       \<and> filter is_question (trace (main w)) = []"
  using assms by (simp add: main_def constructor_def missing_key_message_def)

theorem missing_credential_exits_witness:
  "main (sample_world None (js ''+x'') 5 (Inr (sample_body (js ''feat: add debug log''))) (js ''y''))
     = \<lparr>trace = [Uncaught (JsError (cross_mark
               @ js '' OPENAI_API_KEY is not set. Please export it in your shell config.''))],
        exit_code = 1\<rparr>"
proof -
  have "env_OPENAI_API_KEY
          (sample_world None (js ''+x'') 5 (Inr (sample_body (js ''feat: add debug log''))) (js ''y''))
        = None"
    by (simp add: sample_world_def)
  from missing_credential_exits [OF this] show ?thesis by blast
qed

subsection \<open>No premature mutation\<close>

text \<open>
  Claim C8, no premature mutation. If a run makes a commit invocation at all, then the
  process started, the staged diff was read and is not blank, the context guard passed,
  the completion request returned a body with a first choice text \<open>c\<close>, and the user
  confirmed; the commit command is the sixth event of the trace, after the HTTP request
  and the question, and nothing after it is a commit invocation.
\<close>

theorem commit_only_after_confirmation:
  assumes "filter is_commit_call (trace (main w)) \<noteq> []"
  shows "\<exists>g d body c rest.
      constructor w = Inr g \<and> execSync w git_diff_command = Inr d \<and> trim d \<noteq> [] \<and>
      checkContextLength g w d = Inr () \<and>
      axios_post w completions_url (request_body g (promptTemplate g @ d)) (request_headers g)
        = Inr body \<and>
      first_choice_text body = Inr c \<and>
      snd (promptUser w) \<and>
      trace (main w) =
        [ExecSync git_diff_command,
         HttpPost completions_url (request_body g (promptTemplate g @ d)) (request_headers g),
         ConsoleLog (JStr suggestion_banner), ConsoleLog (JStr c),
         Question confirmation_question, ExecSync (commit_command c)] @ rest \<and>
      filter is_commit_call rest = []"
proof (cases "constructor w")
  case (Inl e)
  with assms show ?thesis by (simp add: main_def)
next
  case g: (Inr g)
  then have m: "main w = run g w" by (rule main_started)
  show ?thesis
  proof (cases "execSync w git_diff_command")
    case (Inl e)
    with assms m show ?thesis by (simp add: run_diff_fails diff_not_commit)
  next
    case d: (Inr d)
    show ?thesis
    proof (cases "trim d = []")
      case True
      with assms m d show ?thesis by (simp add: run_empty diff_not_commit)
    next
      case nb: False
      obtain t r where gen: "generateCommitMessage g w d = (t, r)"
        by (cases "generateCommitMessage g w d")
      then have t: "filter is_commit_call t = []" by (simp add: generate_trace)
      show ?thesis
      proof (cases r)
        case (Inl e)
        with assms m d nb gen t show ?thesis by (simp add: run_generate_fails diff_not_commit)
      next
        case (Inr cm)
        obtain c where cm: "cm = \<lparr>CommitMessage.content = c\<rparr>" by (cases cm) simp
        from gen Inr cm have gen': "generateCommitMessage g w d = (t, Inr \<lparr>CommitMessage.content = c\<rparr>)"
          by simp
        from generate_success_inversion [OF gen'] obtain body where
          guard: "checkContextLength g w d = Inr ()"
          and tt: "t = [HttpPost completions_url (request_body g (promptTemplate g @ d)) (request_headers g)]"
          and body: "axios_post w completions_url (request_body g (promptTemplate g @ d)) (request_headers g) = Inr body"
          and fct: "first_choice_text body = Inr c"
          by auto
        show ?thesis
        proof (cases "toLowerCase (question w confirmation_question) = js ''y''")
          case False
          from main_declined_trace [OF g d nb gen' False] t assms show ?thesis
            by (simp add: diff_not_commit)
        next
          case True
          then have yes: "snd (promptUser w)" by (simp add: promptUser_def)
          from main_accept_trace [OF g d nb gen' True] obtain rest where
            "trace (main w) = ExecSync git_diff_command # t @
               [ConsoleLog (JStr suggestion_banner), ConsoleLog (JStr c),
                Question confirmation_question, ExecSync (commit_command c)] @ rest"
            and rest: "filter is_commit_call rest = []" by blast
          then have "trace (main w) =
            [ExecSync git_diff_command,
             HttpPost completions_url (request_body g (promptTemplate g @ d)) (request_headers g),
             ConsoleLog (JStr suggestion_banner), ConsoleLog (JStr c),
             Question confirmation_question, ExecSync (commit_command c)] @ rest"
            by (simp add: tt)
          with g d nb guard body fct yes rest show ?thesis by blast
        qed
      qed
    qed
  qed
qed

theorem commit_only_after_confirmation_witness:
  "snd (promptUser (sample_world (Some (js ''sk-test'')) (js ''+x'') 5
          (Inr (sample_body (js ''feat: add debug log''))) (js ''y'')))
   \<and> checkContextLength sample_generator
        (sample_world (Some (js ''sk-test'')) (js ''+x'') 5
          (Inr (sample_body (js ''feat: add debug log''))) (js ''y'')) (js ''+x'') = Inr ()"
proof -
  let ?w = "sample_world (Some (js ''sk-test'')) (js ''+x'') 5
          (Inr (sample_body (js ''feat: add debug log''))) (js ''y'')"
  have "toLowerCase (js ''y'') = js ''y''" by (simp add: toLowerCase_y)
  from sample_accept_commits [OF sample_diff_small _ this, of 5 "js ''feat: add debug log''"]
  have h: "filter is_commit_call (trace (main ?w)) \<noteq> []" by simp
  from commit_only_after_confirmation [OF h] obtain g d where
    a: "constructor ?w = Inr g" and b: "execSync ?w git_diff_command = Inr d"
    and c: "checkContextLength g ?w d = Inr ()" and p: "snd (promptUser ?w)"
    by blast
  from a have g: "g = sample_generator" by (simp add: constructor_sample)
  from b have d: "d = js ''+x''" by (simp add: sample_world_def)
  from c p show ?thesis unfolding g d by blast
qed

subsection \<open>Escaping in the commit command\<close>

text \<open>
  Claim C9, what is escaped. For every message the command handed to the shell is
  \<open>git commit -m "\<close>, then the message with each double quote replaced by a backslash and a
  double quote and every other code unit (a backslash, a backtick, a dollar sign) left as
  it is, then \<open>"\<close>. A message without double quotes is embedded unchanged.
\<close>

theorem commit_command_escapes_dquotes_only:
  "fst (commitChanges w m) =
     [ExecSync (js ''git commit -m '' @ [dquote]
        @ concat (map (\<lambda>u. if u = dquote then [backslash, dquote] else [u]) m) @ [dquote])]
   \<and> (dquote \<notin> set m \<longrightarrow>
        fst (commitChanges w m) = [ExecSync (js ''git commit -m '' @ [dquote] @ m @ [dquote])])"
  by (simp add: commitChanges_def commit_command_def replace_dquotes_concat [symmetric] replace_dquotes_id)

theorem commit_command_escapes_dquotes_only_witness:
  "fst (commitChanges (sample_world None [] 0 (Inl NonError) []) [0x61, 0x22, 0x5C, 0x22])
     = [ExecSync (js ''git commit -m '' @ [0x22, 0x61, 0x5C, 0x22, 0x5C, 0x5C, 0x22, 0x22])]
   \<and> fst (commitChanges (sample_world None [] 0 (Inl NonError) []) [0x5C, 0x60, 0x24])
     = [ExecSync (js ''git commit -m '' @ [0x22, 0x5C, 0x60, 0x24, 0x22])]"
  using commit_command_escapes_dquotes_only [of "sample_world None [] 0 (Inl NonError) []" "[0x61, 0x22, 0x5C, 0x22]"]
    commit_command_escapes_dquotes_only [of "sample_world None [] 0 (Inl NonError) []" "[0x5C, 0x60, 0x24]"]
  by (simp add: dquote_def backslash_def)

subsection \<open>Response without candidates\<close>

text \<open>
  Claim C10, a response without candidates. If the request succeeds with a body whose
  \<open>choices\<close> is missing or the empty array, reading the first choice throws a
  \<open>TypeError\<close>; the run prints the unexpected-error line with the engine's message and
  exits with status 1. Neither a suggestion nor the question is printed.
\<close>

theorem no_candidate_unexpected_error:
  assumes "constructor w = Inr g" and "execSync w git_diff_command = Inr d" and "trim d \<noteq> []"
    and "checkContextLength g w d = Inr ()"
    and "axios_post w completions_url (request_body g (promptTemplate g @ d)) (request_headers g)
           = Inr body"
    and "opt_prop body (js ''choices'') = JUndefined \<or> opt_prop body (js ''choices'') = JArr []"
  shows "\<exists>f. first_choice_text body = Inl f \<and>
           main w =
             \<lparr>trace =
                [ExecSync git_diff_command,
                 HttpPost completions_url (request_body g (promptTemplate g @ d)) (request_headers g),
                 ConsoleError (cross_mark @ js '' Unexpected error: '' @ engine_message w f)],
              exit_code = 1\<rparr>"
proof -
  from assms(6) obtain f where f: "first_choice_text body = Inl f"
    using no_candidates by blast
  from generate_bad_body [OF assms(4,5) f] main_generate_fails [OF assms(1-3)]
  have "main w =
             \<lparr>trace =
                [ExecSync git_diff_command,
                 HttpPost completions_url (request_body g (promptTemplate g @ d)) (request_headers g),
                 ConsoleError (cross_mark @ js '' Unexpected error: '' @ engine_message w f)],
              exit_code = 1\<rparr>"
    by simp
  with f show ?thesis by blast
qed

theorem no_candidate_unexpected_error_witness:
  "main (sample_world (Some (js ''sk-test'')) (js ''+x'') 5
      (Inr (JObj [(js ''object'', JStr (js ''chat.completion'')), (js ''choices'', JArr [])]))
      (js ''y'')) =
     \<lparr>trace =
        [ExecSync git_diff_command,
         HttpPost completions_url
           (request_body sample_generator (promptTemplate sample_generator @ js ''+x''))
           (request_headers sample_generator),
         ConsoleError (cross_mark @ js '' Unexpected error: '' @ js ''TypeError'')],
      exit_code = 1\<rparr>
   \<and> main (sample_world (Some (js ''sk-test'')) (js ''+x'') 5
      (Inr (JObj [(js ''object'', JStr (js ''chat.completion''))]))
      (js ''y'')) =
     \<lparr>trace =
        [ExecSync git_diff_command,
         HttpPost completions_url
           (request_body sample_generator (promptTemplate sample_generator @ js ''+x''))
           (request_headers sample_generator),
         ConsoleError (cross_mark @ js '' Unexpected error: '' @ js ''TypeError'')],
      exit_code = 1\<rparr>"
proof -
  have run: "main (sample_world (Some (js ''sk-test'')) (js ''+x'') 5 (Inr b) (js ''y'')) =
     \<lparr>trace =
        [ExecSync git_diff_command,
         HttpPost completions_url
           (request_body sample_generator (promptTemplate sample_generator @ js ''+x''))
           (request_headers sample_generator),
         ConsoleError (cross_mark @ js '' Unexpected error: '' @ js ''TypeError'')],
      exit_code = 1\<rparr>"
    if b: "opt_prop b (js ''choices'') = JUndefined \<or> opt_prop b (js ''choices'') = JArr []"
    for b
  proof -
    let ?w = "sample_world (Some (js ''sk-test'')) (js ''+x'') 5 (Inr b) (js ''y'')"
    have d: "execSync ?w git_diff_command = Inr (js ''+x'')" by (simp add: sample_world_def)
    have guard: "checkContextLength sample_generator ?w (js ''+x'') = Inr ()"
      by (rule sample_guard_passes) simp
    have post: "axios_post ?w completions_url
                  (request_body sample_generator (promptTemplate sample_generator @ js ''+x''))
                  (request_headers sample_generator) = Inr b"
      by (simp add: sample_world_def)
    have em: "engine_message ?w f = js ''TypeError''" for f by (simp add: sample_world_def)
    from no_candidate_unexpected_error [OF constructor_sample d sample_diff_small guard post b]
    show ?thesis unfolding em by blast
  qed
  have e1: "opt_prop (JObj [(js ''object'', JStr (js ''chat.completion'')), (js ''choices'', JArr [])])
              (js ''choices'') = JUndefined
          \<or> opt_prop (JObj [(js ''object'', JStr (js ''chat.completion'')), (js ''choices'', JArr [])])
              (js ''choices'') = JArr []"
    by (simp add: opt_prop_def js_def)
  have e2: "opt_prop (JObj [(js ''object'', JStr (js ''chat.completion''))]) (js ''choices'')
              = JUndefined
          \<or> opt_prop (JObj [(js ''object'', JStr (js ''chat.completion''))]) (js ''choices'')
              = JArr []"
    by (simp add: opt_prop_def js_def)
  from run [OF e1] run [OF e2] show ?thesis by blast
qed

end
